theory Spec2Isabelle
  imports Main "HOL-Library.Multiset"
begin

section \<open>JavaScript primitives used by the handlers\<close>

text \<open>
  JavaScript strings are modelled as \<^typ>\<open>string\<close>: one \<^typ>\<open>char\<close> per code unit, which
  covers the code units below 256. Of the characters that \<open>String.prototype.trim\<close> and
  \<open>parseInt\<close> treat as white space or line terminators, these lie in that range: TAB, LF, VT,
  FF, CR, SPACE and NBSP (U+00A0).
\<close>

definition isWhiteSpace :: "char \<Rightarrow> bool" where
  "isWhiteSpace c =
     (c = CHR 0x09 \<or> c = CHR 0x0A \<or> c = CHR 0x0B \<or> c = CHR 0x0C \<or> c = CHR 0x0D
      \<or> c = CHR 0x20 \<or> c = CHR 0xA0)"

text \<open>\<open>s.trim()\<close>: white space removed from both ends.\<close>

definition trim :: "string \<Rightarrow> string" where
  "trim s = rev (dropWhile isWhiteSpace (rev (dropWhile isWhiteSpace s)))"

text \<open>
  \<open>s.split(' ')\<close>: the fields between single space characters. The empty string splits into
  one empty field, and two adjacent spaces enclose an empty field.
\<close>

fun js_split :: "string \<Rightarrow> string list" where
  "js_split [] = [Nil]"
| "js_split (c # cs) =
     (if c = CHR '' '' then [] # js_split cs
      else (case js_split cs of [] \<Rightarrow> [c] # [] | w # ws \<Rightarrow> (c # w) # ws))"

text \<open>\<open>xs[i]\<close> on an array: \<open>undefined\<close> (here \<open>None\<close>) out of range.\<close>

definition js_index :: "'a list \<Rightarrow> nat \<Rightarrow> 'a option" where
  "js_index xs i = (if i < length xs then Some (xs ! i) else None)"

text \<open>
  Truthiness of a value that is \<open>undefined\<close> or a string: \<open>!x\<close> holds for \<open>undefined\<close> and
  for the empty string.
\<close>

definition falsy :: "string option \<Rightarrow> bool" where
  "falsy x = (case x of None \<Rightarrow> True | Some s \<Rightarrow> s = [])"

text \<open>
  \<open>parseInt(s)\<close> with no radix, after ECMAScript: leading white space is skipped, one sign is
  read, a prefix \<open>0x\<close> or \<open>0X\<close> selects radix 16 (radix 10 otherwise), and the longest prefix
  of digits of that radix is the numeral; anything after it is ignored. The result is NaN
  (here \<open>None\<close>) when that prefix is empty. The numeral's value is kept as an exact integer.
  JavaScript rounds it to a double once it exceeds 53 bits, far outside the 32-bit range in
  which the store accepts an id, so the rounding never changes what a handler does.
\<close>

definition digit_val :: "nat \<Rightarrow> char \<Rightarrow> nat option" where
  "digit_val R c =
     (let n = (of_char c :: nat);
          v = (if 48 \<le> n \<and> n \<le> 57 then Some (n - 48)
               else if 97 \<le> n \<and> n \<le> 122 then Some (n - 87)
               else if 65 \<le> n \<and> n \<le> 90 then Some (n - 55)
               else None)
      in case v of None \<Rightarrow> None | Some d \<Rightarrow> if d < R then Some d else None)"

definition numeral_val :: "nat \<Rightarrow> string \<Rightarrow> int" where
  "numeral_val R z =
     foldl (\<lambda>a c. a * int R + (case digit_val R c of None \<Rightarrow> 0 | Some d \<Rightarrow> int d)) 0 z"

fun strip_sign :: "string \<Rightarrow> int \<times> string" where
  "strip_sign [] = (1, [])"
| "strip_sign (c # cs) =
     (if c = CHR ''-'' then (- 1, cs) else if c = CHR ''+'' then (1, cs) else (1, c # cs))"

fun strip_prefix :: "string \<Rightarrow> nat \<times> string" where
  "strip_prefix (a # b # cs) =
     (if a = CHR ''0'' \<and> (b = CHR ''x'' \<or> b = CHR ''X'') then (16, cs) else (10, a # b # cs))"
| "strip_prefix cs = (10, cs)"

definition parseInt :: "string \<Rightarrow> int option" where
  "parseInt s =
     (let (sign, s1) = strip_sign (dropWhile isWhiteSpace s);
          (R, s2) = strip_prefix s1;
          z = takeWhile (\<lambda>c. digit_val R c \<noteq> None) s2
      in if z = [] then None else Some (sign * numeral_val R z))"

section \<open>Rows and responses\<close>

record user =
  user_id :: int
  email :: string
  password :: string
  user_createdAt :: int
  user_updatedAt :: int

record todo =
  todo_id :: int
  title :: string
  completed :: bool
  userId :: int
  createdAt :: int
  updatedAt :: int

text \<open>The JSON bodies the handlers send: \<open>{error}\<close>, \<open>{message}\<close>, a todo, an array of
  todos, and \<open>{message, token, user: {id, email}}\<close>.\<close>

datatype body =
    ErrorJson string
  | MessageJson string
  | TodoJson todo
  | TodosJson "todo list"
  | AuthJson string string int string

record response =
  status :: nat
  json :: body

section \<open>The store\<close>

text \<open>
  The two tables of the Prisma schema, with the sequences behind \<open>autoincrement()\<close>. Time
  stamps are integers (milliseconds). The operations below are the Prisma client calls the
  handlers make, with the failures the schema's constraints give: the unique email, the
  relation from a todo to its user, a missing record on update and delete, and an id that does
  not fit the 32-bit \<open>Int\<close> column, on which the client throws before it reaches the table.
  Failures of the connection itself are not modelled.
\<close>

record db =
  users :: "user list"
  todos :: "todo list"
  user_seq :: int
  todo_seq :: int

datatype prisma_error =
    UniqueConstraintFailed
  | ForeignKeyConstraintFailed
  | RecordNotFound
  | ValueOutOfRange
  | ValidationError

text \<open>The values of a column of type \<open>Int\<close>: 32-bit signed integers.\<close>

definition in_int4 :: "int \<Rightarrow> bool" where
  "in_int4 n = (- 2147483648 \<le> n \<and> n \<le> 2147483647)"

definition user_findUnique :: "db \<Rightarrow> string \<Rightarrow> user option" where
  "user_findUnique d e = find (\<lambda>u. email u = e) (users d)"

definition user_create :: "int \<Rightarrow> db \<Rightarrow> string \<Rightarrow> string \<Rightarrow> prisma_error + (user \<times> db)" where
  "user_create now d e pw =
     (if user_findUnique d e \<noteq> None then Inl UniqueConstraintFailed
      else let u = \<lparr>user_id = user_seq d, email = e, password = pw,
                     user_createdAt = now, user_updatedAt = now\<rparr>
           in Inr (u, d\<lparr>users := users d @ [u], user_seq := user_seq d + 1\<rparr>))"

text \<open>The row of the table with a given primary key, if there is one.\<close>

definition todo_row :: "db \<Rightarrow> int \<Rightarrow> todo option" where
  "todo_row d i = find (\<lambda>t. todo_id t = i) (todos d)"

text \<open>\<open>findUnique({where: {id}})\<close>: throws on an id outside the column's range, and gives
  the row or \<open>null\<close> otherwise.\<close>

definition todo_findUnique :: "db \<Rightarrow> int \<Rightarrow> prisma_error + todo option" where
  "todo_findUnique d i = (if \<not> in_int4 i then Inl ValueOutOfRange else Inr (todo_row d i))"

text \<open>\<open>findMany({where: {userId}, orderBy: {createdAt: 'desc'}})\<close>.\<close>

definition todo_findMany :: "db \<Rightarrow> int \<Rightarrow> todo list" where
  "todo_findMany d uid = sort_key (\<lambda>t. - createdAt t) (filter (\<lambda>t. userId t = uid) (todos d))"

text \<open>\<open>create({data: {title, userId}})\<close>: \<open>completed\<close> and the time stamps take their
  defaults.\<close>

definition todo_create :: "int \<Rightarrow> db \<Rightarrow> string \<Rightarrow> int \<Rightarrow> prisma_error + (todo \<times> db)" where
  "todo_create now d ti uid =
     (if \<not> (\<exists>u \<in> set (users d). user_id u = uid) then Inl ForeignKeyConstraintFailed
      else let t = \<lparr>todo_id = todo_seq d, title = ti, completed = False, userId = uid,
                     createdAt = now, updatedAt = now\<rparr>
           in Inr (t, d\<lparr>todos := todos d @ [t], todo_seq := todo_seq d + 1\<rparr>))"

text \<open>The \<open>updateData\<close> object: a field is set or left out.\<close>

record updateData =
  upd_title :: "string option"
  upd_completed :: "bool option"

definition apply_update :: "int \<Rightarrow> updateData \<Rightarrow> todo \<Rightarrow> todo" where
  "apply_update now u t =
     t\<lparr>title := (case upd_title u of None \<Rightarrow> title t | Some s \<Rightarrow> s),
       completed := (case upd_completed u of None \<Rightarrow> completed t | Some b \<Rightarrow> b),
       updatedAt := now\<rparr>"

text \<open>The store after \<open>update({where: {id}, data})\<close>: the row with that primary key is
  rewritten, and \<open>updatedAt\<close> is refreshed.\<close>

definition updated_db :: "int \<Rightarrow> db \<Rightarrow> int \<Rightarrow> updateData \<Rightarrow> db" where
  "updated_db now d i u =
     d\<lparr>todos := map (\<lambda>r. if todo_id r = i then apply_update now u r else r) (todos d)\<rparr>"

definition todo_update :: "int \<Rightarrow> db \<Rightarrow> int \<Rightarrow> updateData \<Rightarrow> prisma_error + (todo \<times> db)" where
  "todo_update now d i u =
     (if \<not> in_int4 i then Inl ValueOutOfRange
      else (case todo_row d i of
              None \<Rightarrow> Inl RecordNotFound
            | Some t \<Rightarrow> Inr (apply_update now u t, updated_db now d i u)))"

definition todo_delete :: "db \<Rightarrow> int \<Rightarrow> prisma_error + (todo \<times> db)" where
  "todo_delete d i =
     (if \<not> in_int4 i then Inl ValueOutOfRange
      else (case todo_row d i of
              None \<Rightarrow> Inl RecordNotFound
            | Some t \<Rightarrow> Inr (t, d\<lparr>todos := filter (\<lambda>r. todo_id r \<noteq> i) (todos d)\<rparr>)))"

section \<open>Authentication middleware\<close>

text \<open>
  \<open>jwt.verify\<close> with the server's secret is a parameter: it gives an error or the decoded
  payload. The error classes are those of the jsonwebtoken library.
\<close>

datatype jwt_error = TokenExpiredError | JsonWebTokenError | NotBeforeError

record jwt_payload =
  payload_userId :: int

text \<open>\<open>authHeader && authHeader.split(' ')[1]\<close>: an absent or empty header is the token
  itself (falsy); otherwise the second field of the header.\<close>

definition extract_token :: "string option \<Rightarrow> string option" where
  "extract_token authHeader =
     (case authHeader of
        None \<Rightarrow> None
      | Some h \<Rightarrow> if h = [] then Some [] else js_index (js_split h) 1)"

text \<open>The middleware answers itself (\<open>Inl\<close>) or calls \<open>next()\<close> with \<open>req.userId\<close> set
  (\<open>Inr\<close>).\<close>

definition authenticateToken ::
  "(string \<Rightarrow> jwt_error + jwt_payload) \<Rightarrow> string option \<Rightarrow> response + int" where
  "authenticateToken jwt_verify authHeader =
     (let token = extract_token authHeader
      in if falsy token then Inl \<lparr>status = 401, json = ErrorJson ''Access token required''\<rparr>
         else (case jwt_verify (the token) of
                 Inl err \<Rightarrow> Inl \<lparr>status = 403, json = ErrorJson ''Invalid or expired token''\<rparr>
               | Inr decoded \<Rightarrow> Inr (payload_userId decoded)))"

section \<open>Authentication routes\<close>

text \<open>
  The body of a signup request: the two fields the handler reads, each absent or a string.
  The hash, the comparison and the signing of a token are parameters, for \<open>bcrypt.hash\<close>,
  \<open>bcrypt.compare\<close> and \<open>jwt.sign\<close> with the server's secret.
\<close>

record credentials =
  body_email :: "string option"
  body_password :: "string option"

definition signup ::
  "(string \<Rightarrow> nat \<Rightarrow> string) \<Rightarrow> (int \<Rightarrow> string) \<Rightarrow> int \<Rightarrow> db \<Rightarrow> credentials \<Rightarrow> response \<times> db" where
  "signup bcrypt_hash jwt_sign now d req =
     (if falsy (body_email req) \<or> falsy (body_password req)
      then (\<lparr>status = 400, json = ErrorJson ''Email and password are required''\<rparr>, d)
      else if length (the (body_password req)) < 6
      then (\<lparr>status = 400, json = ErrorJson ''Password must be at least 6 characters''\<rparr>, d)
      else (case user_findUnique d (the (body_email req)) of
              Some existingUser \<Rightarrow> (\<lparr>status = 400, json = ErrorJson ''User already exists''\<rparr>, d)
            | None \<Rightarrow>
                (let hashedPassword = bcrypt_hash (the (body_password req)) 10
                 in case user_create now d (the (body_email req)) hashedPassword of
                      Inl error \<Rightarrow>
                        (\<lparr>status = 500, json = ErrorJson ''Something went wrong during signup''\<rparr>, d)
                    | Inr (u, d') \<Rightarrow>
                        (\<lparr>status = 201,
                          json = AuthJson ''User created successfully'' (jwt_sign (user_id u))
                                   (user_id u) (email u)\<rparr>, d'))))"

text \<open>
  The body of a login request, as \<open>express.json()\<close> delivers it: each of the two fields is
  absent or any JSON value (numbers restricted to integers). The handler tests the fields for
  truthiness only, so a value that is no string reaches the calls behind the test:
  \<open>findUnique\<close> throws on an email that is no string, and \<open>bcrypt.compare\<close> throws on a
  password that is no string. Both land in the handler's \<open>catch\<close>.
\<close>

datatype jsvalue =
    JNull
  | JBool bool
  | JNumber int
  | JString string
  | JArray "jsvalue list"
  | JObject "(string \<times> jsvalue) list"

record login_body =
  login_email :: "jsvalue option"
  login_password :: "jsvalue option"

text \<open>\<open>!x\<close> on a field: it holds for \<open>undefined\<close>, \<open>null\<close>, \<open>false\<close>, zero and the
  empty string.\<close>

definition js_falsy :: "jsvalue option \<Rightarrow> bool" where
  "js_falsy x =
     (case x of
        None \<Rightarrow> True
      | Some JNull \<Rightarrow> True
      | Some (JBool b) \<Rightarrow> \<not> b
      | Some (JNumber n) \<Rightarrow> n = 0
      | Some (JString s) \<Rightarrow> s = []
      | Some (JArray xs) \<Rightarrow> False
      | Some (JObject kvs) \<Rightarrow> False)"

definition user_findUnique_where :: "db \<Rightarrow> jsvalue \<Rightarrow> prisma_error + user option" where
  "user_findUnique_where d v =
     (case v of JString e \<Rightarrow> Inr (user_findUnique d e) | _ \<Rightarrow> Inl ValidationError)"

datatype bcrypt_error = IllegalArguments

definition bcrypt_compare_js ::
  "(string \<Rightarrow> string \<Rightarrow> bool) \<Rightarrow> jsvalue \<Rightarrow> string \<Rightarrow> bcrypt_error + bool" where
  "bcrypt_compare_js bcrypt_compare v h =
     (case v of JString p \<Rightarrow> Inr (bcrypt_compare p h) | _ \<Rightarrow> Inl IllegalArguments)"

definition login ::
  "(string \<Rightarrow> string \<Rightarrow> bool) \<Rightarrow> (int \<Rightarrow> string) \<Rightarrow> db \<Rightarrow> login_body \<Rightarrow> response \<times> db" where
  "login bcrypt_compare jwt_sign d req =
     (if js_falsy (login_email req) \<or> js_falsy (login_password req)
      then (\<lparr>status = 400, json = ErrorJson ''Email and password are required''\<rparr>, d)
      else (case user_findUnique_where d (the (login_email req)) of
              Inl error \<Rightarrow>
                (\<lparr>status = 500, json = ErrorJson ''Something went wrong during login''\<rparr>, d)
            | Inr None \<Rightarrow> (\<lparr>status = 401, json = ErrorJson ''Invalid credentials''\<rparr>, d)
            | Inr (Some u) \<Rightarrow>
                (case bcrypt_compare_js bcrypt_compare (the (login_password req)) (password u) of
                   Inl error \<Rightarrow>
                     (\<lparr>status = 500, json = ErrorJson ''Something went wrong during login''\<rparr>, d)
                 | Inr isValidPassword \<Rightarrow>
                     if \<not> isValidPassword
                     then (\<lparr>status = 401, json = ErrorJson ''Invalid credentials''\<rparr>, d)
                     else (\<lparr>status = 200,
                            json = AuthJson ''Login successful'' (jwt_sign (user_id u))
                                     (user_id u) (email u)\<rparr>, d))))"

section \<open>Todo routes\<close>

text \<open>
  A request to the todo router: the Authorization header, the \<open>:id\<close> path parameter and the
  two body fields the handlers read, each absent or of the type of the column it feeds.
\<close>

record request =
  authorization :: "string option"
  param_id :: string
  body_title :: "string option"
  body_completed :: "bool option"

text \<open>The handlers proper, run with \<open>req.userId\<close> set by the middleware.\<close>

definition get_todos :: "db \<Rightarrow> int \<Rightarrow> response \<times> db" where
  "get_todos d uid = (\<lparr>status = 200, json = TodosJson (todo_findMany d uid)\<rparr>, d)"

definition get_todo :: "db \<Rightarrow> int \<Rightarrow> request \<Rightarrow> response \<times> db" where
  "get_todo d uid req =
     (case parseInt (param_id req) of
        None \<Rightarrow> (\<lparr>status = 400, json = ErrorJson ''Invalid todo ID''\<rparr>, d)
      | Some todoId \<Rightarrow>
          (case todo_findUnique d todoId of
             Inl error \<Rightarrow> (\<lparr>status = 500, json = ErrorJson ''Failed to fetch todo''\<rparr>, d)
           | Inr None \<Rightarrow> (\<lparr>status = 404, json = ErrorJson ''Todo not found''\<rparr>, d)
           | Inr (Some t) \<Rightarrow>
               if userId t \<noteq> uid then (\<lparr>status = 403, json = ErrorJson ''Access denied''\<rparr>, d)
               else (\<lparr>status = 200, json = TodoJson t\<rparr>, d)))"

definition post_todo :: "int \<Rightarrow> db \<Rightarrow> int \<Rightarrow> request \<Rightarrow> response \<times> db" where
  "post_todo now d uid req =
     (if falsy (body_title req) \<or> trim (the (body_title req)) = []
      then (\<lparr>status = 400, json = ErrorJson ''Title is required''\<rparr>, d)
      else (case todo_create now d (trim (the (body_title req))) uid of
              Inl error \<Rightarrow> (\<lparr>status = 500, json = ErrorJson ''Failed to create todo''\<rparr>, d)
            | Inr (t, d') \<Rightarrow> (\<lparr>status = 201, json = TodoJson t\<rparr>, d')))"

definition put_todo :: "int \<Rightarrow> db \<Rightarrow> int \<Rightarrow> request \<Rightarrow> response \<times> db" where
  "put_todo now d uid req =
     (case parseInt (param_id req) of
        None \<Rightarrow> (\<lparr>status = 400, json = ErrorJson ''Invalid todo ID''\<rparr>, d)
      | Some todoId \<Rightarrow>
          (case todo_findUnique d todoId of
             Inl error \<Rightarrow> (\<lparr>status = 500, json = ErrorJson ''Failed to update todo''\<rparr>, d)
           | Inr None \<Rightarrow> (\<lparr>status = 404, json = ErrorJson ''Todo not found''\<rparr>, d)
           | Inr (Some existingTodo) \<Rightarrow>
               if userId existingTodo \<noteq> uid
               then (\<lparr>status = 403, json = ErrorJson ''Access denied''\<rparr>, d)
               else (let data = \<lparr>upd_title = map_option trim (body_title req),
                                  upd_completed = body_completed req\<rparr>
                     in case todo_update now d todoId data of
                          Inl error \<Rightarrow>
                            (\<lparr>status = 500, json = ErrorJson ''Failed to update todo''\<rparr>, d)
                        | Inr (updatedTodo, d') \<Rightarrow>
                            (\<lparr>status = 200, json = TodoJson updatedTodo\<rparr>, d'))))"

definition delete_todo :: "db \<Rightarrow> int \<Rightarrow> request \<Rightarrow> response \<times> db" where
  "delete_todo d uid req =
     (case parseInt (param_id req) of
        None \<Rightarrow> (\<lparr>status = 400, json = ErrorJson ''Invalid todo ID''\<rparr>, d)
      | Some todoId \<Rightarrow>
          (case todo_findUnique d todoId of
             Inl error \<Rightarrow> (\<lparr>status = 500, json = ErrorJson ''Failed to delete todo''\<rparr>, d)
           | Inr None \<Rightarrow> (\<lparr>status = 404, json = ErrorJson ''Todo not found''\<rparr>, d)
           | Inr (Some existingTodo) \<Rightarrow>
               if userId existingTodo \<noteq> uid
               then (\<lparr>status = 403, json = ErrorJson ''Access denied''\<rparr>, d)
               else (case todo_delete d todoId of
                       Inl error \<Rightarrow>
                         (\<lparr>status = 500, json = ErrorJson ''Failed to delete todo''\<rparr>, d)
                     | Inr (deleted, d') \<Rightarrow>
                         (\<lparr>status = 200, json = MessageJson ''Todo deleted successfully''\<rparr>, d'))))"

text \<open>\<open>router.use(authenticateToken)\<close>: every route of the router runs behind the
  middleware.\<close>

definition protected ::
  "(string \<Rightarrow> jwt_error + jwt_payload) \<Rightarrow> (db \<Rightarrow> int \<Rightarrow> request \<Rightarrow> response \<times> db)
     \<Rightarrow> db \<Rightarrow> request \<Rightarrow> response \<times> db" where
  "protected jwt_verify handler d req =
     (case authenticateToken jwt_verify (authorization req) of
        Inl res \<Rightarrow> (res, d)
      | Inr uid \<Rightarrow> handler d uid req)"

definition route_get_todos where
  "route_get_todos jwt_verify = protected jwt_verify (\<lambda>d uid req. get_todos d uid)"

definition route_get_todo where
  "route_get_todo jwt_verify = protected jwt_verify get_todo"

definition route_post_todo where
  "route_post_todo jwt_verify now = protected jwt_verify (post_todo now)"

definition route_put_todo where
  "route_put_todo jwt_verify now = protected jwt_verify (put_todo now)"

definition route_delete_todo where
  "route_delete_todo jwt_verify = protected jwt_verify delete_todo"

section \<open>A small instance\<close>

text \<open>
  Two accounts, A (id 1) and B (id 2), with three todos between them, a verifier that accepts
  one token for each account, and a hasher that only prefixes its input. The closed facts
  below are evaluated on this instance.
\<close>

definition example_verify :: "string \<Rightarrow> jwt_error + jwt_payload" where
  "example_verify token =
     (if token = ''tokenA'' then Inr \<lparr>payload_userId = 1\<rparr>
      else if token = ''tokenB'' then Inr \<lparr>payload_userId = 2\<rparr>
      else if token = ''tokenOld'' then Inl TokenExpiredError
      else Inl JsonWebTokenError)"

definition example_sign :: "int \<Rightarrow> string" where
  "example_sign uid = (if uid = 1 then ''tokenA'' else if uid = 2 then ''tokenB'' else ''tokenC'')"

definition example_hash :: "string \<Rightarrow> nat \<Rightarrow> string" where
  "example_hash pw cost = ''hashed:'' @ pw"

definition example_compare :: "string \<Rightarrow> string \<Rightarrow> bool" where
  "example_compare pw h = (h = ''hashed:'' @ pw)"

definition user_a :: user where
  "user_a = \<lparr>user_id = 1, email = ''a@example.com'', password = ''hashed:secretA'',
              user_createdAt = 10, user_updatedAt = 10\<rparr>"

definition user_b :: user where
  "user_b = \<lparr>user_id = 2, email = ''b@example.com'', password = ''hashed:secretB'',
              user_createdAt = 20, user_updatedAt = 20\<rparr>"

definition todo_1 :: todo where
  "todo_1 = \<lparr>todo_id = 1, title = ''buy milk'', completed = False, userId = 1,
              createdAt = 100, updatedAt = 100\<rparr>"

definition todo_2 :: todo where
  "todo_2 = \<lparr>todo_id = 2, title = ''walk dog'', completed = True, userId = 2,
              createdAt = 200, updatedAt = 250\<rparr>"

definition todo_3 :: todo where
  "todo_3 = \<lparr>todo_id = 3, title = ''read book'', completed = False, userId = 1,
              createdAt = 300, updatedAt = 300\<rparr>"

definition example_db :: db where
  "example_db = \<lparr>users = [user_a, user_b], todos = [todo_1, todo_2, todo_3],
                  user_seq = 3, todo_seq = 4\<rparr>"

definition request_of :: "string \<Rightarrow> string \<Rightarrow> string option \<Rightarrow> bool option \<Rightarrow> request" where
  "request_of header pid ti co =
     \<lparr>authorization = Some header, param_id = pid, body_title = ti, body_completed = co\<rparr>"

section \<open>Facts about the primitives\<close>

lemma js_split_no_space: "CHR '' '' \<notin> set s \<Longrightarrow> js_split s = [s]"
  by (induction s) auto

lemma js_split_first_field:
  "CHR '' '' \<notin> set a \<Longrightarrow> js_split (a @ CHR '' '' # r) = a # js_split r"
  by (induction a) auto

lemma js_split_head: "\<exists>ws. js_split s = takeWhile (\<lambda>c. c \<noteq> CHR '' '') s # ws"
  by (induction s) auto

lemma extract_token_absent: "extract_token None = None"
  by (simp add: extract_token_def)

lemma extract_token_one_field: "CHR '' '' \<notin> set h \<Longrightarrow> falsy (extract_token (Some h))"
  by (cases h) (auto simp: extract_token_def falsy_def js_index_def js_split_no_space)

lemma extract_token_second_field:
  assumes "CHR '' '' \<notin> set a"
  shows "extract_token (Some (a @ CHR '' '' # r)) = Some (takeWhile (\<lambda>c. c \<noteq> CHR '' '') r)"
proof -
  obtain ws where "js_split r = takeWhile (\<lambda>c. c \<noteq> CHR '' '') r # ws"
    using js_split_head by blast
  then show ?thesis
    using assms by (simp add: extract_token_def js_index_def js_split_first_field)
qed

lemma authenticateToken_absent:
  "authenticateToken jwt_verify None
     = Inl \<lparr>status = 401, json = ErrorJson ''Access token required''\<rparr>"
  by (simp add: authenticateToken_def extract_token_absent falsy_def)

lemma trim_blank:
  assumes "\<forall>c\<in>set s. isWhiteSpace c"
  shows "trim s = []"
proof -
  have h: "dropWhile isWhiteSpace s = []"
    using assms by (simp add: dropWhile_eq_Nil_conv)
  show ?thesis
    unfolding trim_def h by simp
qed

lemma trim_blank_iff: "trim s = [] \<longleftrightarrow> (\<forall>c\<in>set s. isWhiteSpace c)"
proof
  assume "trim s = []"
  then have "dropWhile isWhiteSpace (rev (dropWhile isWhiteSpace s)) = []"
    by (simp add: trim_def)
  then have "\<forall>c\<in>set (dropWhile isWhiteSpace s). isWhiteSpace c"
    by (simp add: dropWhile_eq_Nil_conv)
  then have "dropWhile isWhiteSpace s = []"
    by (metis dropWhile_eq_Nil_conv dropWhile_idem)
  then show "\<forall>c\<in>set s. isWhiteSpace c"
    by (simp add: dropWhile_eq_Nil_conv)
qed (rule trim_blank)


section \<open>Facts about the store\<close>

lemma find_map_preserving:
  assumes "\<And>r. P (f r) = P r"
  shows "find P (map f xs) = map_option f (find P xs)"
  using assms by (induction xs) auto

lemma find_map_other:
  assumes "\<And>r. P r \<Longrightarrow> f r = r" "\<And>r. P (f r) = P r"
  shows "find P (map f xs) = find P xs"
  using assms by (induction xs) auto

lemma todo_id_apply_update: "todo_id (apply_update now u t) = todo_id t"
  by (simp add: apply_update_def)

lemma findUnique_found:
  assumes "todo_findUnique d n = Inr (Some t)"
  shows "in_int4 n" and "todo_row d n = Some t"
  using assms by (auto simp: todo_findUnique_def split: if_splits)

lemma todo_update_found:
  assumes "todo_findUnique d n = Inr (Some t)"
  shows "todo_update now d n u = Inr (apply_update now u t, updated_db now d n u)"
  using findUnique_found[OF assms] by (simp add: todo_update_def)

lemma todo_row_updated_same:
  assumes "todo_row d n = Some t"
  shows "todo_row (updated_db now d n u) n = Some (apply_update now u t)"
proof -
  let ?f = "\<lambda>r. if todo_id r = n then apply_update now u r else r"
  have "find (\<lambda>r. todo_id r = n) (map ?f (todos d))
          = map_option ?f (find (\<lambda>r. todo_id r = n) (todos d))"
    by (rule find_map_preserving) (simp add: todo_id_apply_update)
  moreover have "todo_id t = n"
    using assms by (auto simp: todo_row_def find_Some_iff)
  ultimately show ?thesis
    using assms by (simp add: todo_row_def updated_db_def)
qed

lemma todo_row_updated_other:
  assumes "m \<noteq> n"
  shows "todo_row (updated_db now d n u) m = todo_row d m"
proof -
  let ?f = "\<lambda>r. if todo_id r = n then apply_update now u r else r"
  have "find (\<lambda>r. todo_id r = m) (map ?f (todos d)) = find (\<lambda>r. todo_id r = m) (todos d)"
    using assms by (intro find_map_other) (auto simp: todo_id_apply_update)
  then show ?thesis
    by (simp add: todo_row_def updated_db_def)
qed

lemma findUnique_updated_same:
  assumes "todo_findUnique d n = Inr (Some t)"
  shows "todo_findUnique (updated_db now d n u) n = Inr (Some (apply_update now u t))"
  using findUnique_found[OF assms]
  by (simp add: todo_findUnique_def todo_row_updated_same)

lemma findUnique_updated_other:
  assumes "m \<noteq> n"
  shows "todo_findUnique (updated_db now d n u) m = todo_findUnique d m"
  using assms by (simp add: todo_findUnique_def todo_row_updated_other)

lemma users_updated_db: "users (updated_db now d n u) = users d"
  by (simp add: updated_db_def)

lemma sorted_desc_sort_key:
  "sorted_wrt (\<lambda>a b. createdAt b \<le> createdAt a) (sort_key (\<lambda>t. - createdAt t) xs)"
proof -
  have "sorted (map (\<lambda>t. - createdAt t) (sort_key (\<lambda>t. - createdAt t) xs))"
    by (rule sorted_sort_key)
  then have "sorted_wrt (\<lambda>a b. - createdAt a \<le> - createdAt b) (sort_key (\<lambda>t. - createdAt t) xs)"
    unfolding sorted_wrt_map .
  then show ?thesis
    by (rule sorted_wrt_mono_rel[rotated]) simp
qed

section \<open>Facts about the router\<close>

lemma protected_authenticated:
  "authenticateToken jwt_verify (authorization req) = Inr uid \<Longrightarrow>
     protected jwt_verify handler d req = handler d uid req"
  by (simp add: protected_def)

lemma put_todo_by_owner:
  assumes auth: "authenticateToken jwt_verify (authorization req) = Inr uid"
    and pid: "parseInt (param_id req) = Some n"
    and found: "todo_findUnique d n = Inr (Some t)"
    and own: "userId t = uid"
  shows "route_put_todo jwt_verify now d req
           = (\<lparr>status = 200,
               json = TodoJson (apply_update now
                        \<lparr>upd_title = map_option trim (body_title req),
                         upd_completed = body_completed req\<rparr> t)\<rparr>,
              updated_db now d n \<lparr>upd_title = map_option trim (body_title req),
                                   upd_completed = body_completed req\<rparr>)"
  using pid found own
  by (simp add: route_put_todo_def protected_authenticated[OF auth] put_todo_def
      todo_update_found[OF found] Let_def)

section \<open>The instance, evaluated\<close>

lemmas example_defs = example_db_def user_a_def user_b_def todo_1_def todo_2_def todo_3_def

lemma auth_a: "authenticateToken example_verify (authorization (request_of ''Bearer tokenA'' p ti co)) = Inr 1"
  by (simp add: request_of_def authenticateToken_def extract_token_def js_index_def falsy_def
      example_verify_def)

lemma auth_b: "authenticateToken example_verify (authorization (request_of ''Bearer tokenB'' p ti co)) = Inr 2"
  by (simp add: request_of_def authenticateToken_def extract_token_def js_index_def falsy_def
      example_verify_def)

lemma parseInt_1: "parseInt ''1'' = Some 1" by code_simp
lemma parseInt_99: "parseInt ''99'' = Some 99" by code_simp
lemma parseInt_abc: "parseInt ''abc'' = None" by code_simp

lemma digit_val_10:
  "digit_val 10 CHR ''0'' = Some 0" "digit_val 10 CHR ''1'' = Some 1"
  "digit_val 10 CHR ''2'' = Some 2" "digit_val 10 CHR ''3'' = Some 3"
  "digit_val 10 CHR ''4'' = Some 4" "digit_val 10 CHR ''5'' = Some 5"
  "digit_val 10 CHR ''6'' = Some 6" "digit_val 10 CHR ''7'' = Some 7"
  "digit_val 10 CHR ''8'' = Some 8" "digit_val 10 CHR ''9'' = Some 9"
  by (simp_all add: digit_val_def)

lemma parseInt_above_range: "parseInt ''2147483648'' = Some 2147483648"
  by (simp add: parseInt_def isWhiteSpace_def numeral_val_def digit_val_10)

lemma find_1: "todo_findUnique example_db 1 = Inr (Some todo_1)"
  by (simp add: todo_findUnique_def todo_row_def in_int4_def example_defs)

lemma find_99: "todo_findUnique example_db 99 = Inr None"
  by (simp add: todo_findUnique_def todo_row_def in_int4_def example_defs)

section \<open>Single-resource requests\<close>

text \<open>
  Read-one, update and delete by an authenticated principal, on an id that parses. When the
  lookup finds no todo under the id the answer is 404 \<open>Todo not found\<close>, whoever the
  principal is; when it finds a todo of someone else the answer is 403 \<open>Access denied\<close>. The
  lookup comes first: an id that no row carries never gives 403, in range or not. The store is
  unchanged in all these cases.
\<close>

lemma not_found_before_forbidden:
  assumes auth: "authenticateToken jwt_verify (authorization req) = Inr uid"
    and pid: "parseInt (param_id req) = Some n"
  shows "(todo_findUnique d n = Inr None \<longrightarrow>
            route_get_todo jwt_verify d req
              = (\<lparr>status = 404, json = ErrorJson ''Todo not found''\<rparr>, d)
          \<and> route_put_todo jwt_verify now d req
              = (\<lparr>status = 404, json = ErrorJson ''Todo not found''\<rparr>, d)
          \<and> route_delete_todo jwt_verify d req
              = (\<lparr>status = 404, json = ErrorJson ''Todo not found''\<rparr>, d))
       \<and> (\<forall>t. todo_findUnique d n = Inr (Some t) \<and> userId t \<noteq> uid \<longrightarrow>
            route_get_todo jwt_verify d req
              = (\<lparr>status = 403, json = ErrorJson ''Access denied''\<rparr>, d)
          \<and> route_put_todo jwt_verify now d req
              = (\<lparr>status = 403, json = ErrorJson ''Access denied''\<rparr>, d)
          \<and> route_delete_todo jwt_verify d req
              = (\<lparr>status = 403, json = ErrorJson ''Access denied''\<rparr>, d))"
  using pid
  by (simp add: route_get_todo_def route_put_todo_def route_delete_todo_def
      protected_authenticated[OF auth] get_todo_def put_todo_def delete_todo_def)

lemma in_range_missing_id:
  "in_int4 n \<Longrightarrow> todo_row d n = None \<Longrightarrow> todo_findUnique d n = Inr None"
  by (simp add: todo_findUnique_def)

lemma missing_id_never_forbidden:
  assumes auth: "authenticateToken jwt_verify (authorization req) = Inr uid"
    and pid: "parseInt (param_id req) = Some n"
    and missing: "todo_row d n = None"
  shows "status (fst (route_get_todo jwt_verify d req)) \<noteq> 403
       \<and> status (fst (route_put_todo jwt_verify now d req)) \<noteq> 403
       \<and> status (fst (route_delete_todo jwt_verify d req)) \<noteq> 403"
  using pid missing
  by (simp add: route_get_todo_def route_put_todo_def route_delete_todo_def
      protected_authenticated[OF auth] get_todo_def put_todo_def delete_todo_def
      todo_findUnique_def)

lemma not_found_before_forbidden_example:
  "(route_get_todo example_verify example_db (request_of ''Bearer tokenB'' ''99'' None None)
      = (\<lparr>status = 404, json = ErrorJson ''Todo not found''\<rparr>, example_db)
    \<and> route_put_todo example_verify 400 example_db (request_of ''Bearer tokenB'' ''99'' None None)
      = (\<lparr>status = 404, json = ErrorJson ''Todo not found''\<rparr>, example_db)
    \<and> route_delete_todo example_verify example_db (request_of ''Bearer tokenB'' ''99'' None None)
      = (\<lparr>status = 404, json = ErrorJson ''Todo not found''\<rparr>, example_db))
   \<and> (route_get_todo example_verify example_db (request_of ''Bearer tokenB'' ''1'' None None)
      = (\<lparr>status = 403, json = ErrorJson ''Access denied''\<rparr>, example_db)
    \<and> route_put_todo example_verify 400 example_db (request_of ''Bearer tokenB'' ''1'' None None)
      = (\<lparr>status = 403, json = ErrorJson ''Access denied''\<rparr>, example_db)
    \<and> route_delete_todo example_verify example_db (request_of ''Bearer tokenB'' ''1'' None None)
      = (\<lparr>status = 403, json = ErrorJson ''Access denied''\<rparr>, example_db))"
proof -
  have p99: "parseInt (param_id (request_of ''Bearer tokenB'' ''99'' None None)) = Some 99"
    by (simp add: request_of_def parseInt_99)
  have p1: "parseInt (param_id (request_of ''Bearer tokenB'' ''1'' None None)) = Some 1"
    by (simp add: request_of_def parseInt_1)
  have other: "todo_findUnique example_db 1 = Inr (Some todo_1) \<and> userId todo_1 \<noteq> 2"
    by (simp add: find_1 todo_1_def)
  show ?thesis
    using not_found_before_forbidden[OF auth_b p99, of example_db 400, THEN conjunct1, rule_format, OF find_99]
      not_found_before_forbidden[OF auth_b p1, of example_db 400, THEN conjunct2, rule_format, OF other]
    by blast
qed

text \<open>
  C1. A single-resource request for an id that no todo carries is to be answered 404. At the
  id 2147483648 it is not: \<open>parseInt\<close> accepts the id and no row of the store carries it, but
  it does not fit the \<open>Int\<close> column, the lookup throws, and each of the three handlers answers
  500 from its \<open>catch\<close>.
\<close>

theorem out_of_range_id_answers_500:
  "parseInt ''2147483648'' = Some 2147483648
   \<and> todo_row example_db 2147483648 = None
   \<and> route_get_todo example_verify example_db
        (request_of ''Bearer tokenA'' ''2147483648'' None None)
      = (\<lparr>status = 500, json = ErrorJson ''Failed to fetch todo''\<rparr>, example_db)
   \<and> route_put_todo example_verify 400 example_db
        (request_of ''Bearer tokenA'' ''2147483648'' None None)
      = (\<lparr>status = 500, json = ErrorJson ''Failed to update todo''\<rparr>, example_db)
   \<and> route_delete_todo example_verify example_db
        (request_of ''Bearer tokenA'' ''2147483648'' None None)
      = (\<lparr>status = 500, json = ErrorJson ''Failed to delete todo''\<rparr>, example_db)"
proof -
  have p: "parseInt ''2147483648'' = Some 2147483648"
    by (rule parseInt_above_range)
  have row: "todo_row example_db 2147483648 = None"
    by (simp add: todo_row_def example_defs)
  have thrown: "todo_findUnique example_db 2147483648 = Inl ValueOutOfRange"
    by (simp add: todo_findUnique_def in_int4_def)
  have pid: "parseInt (param_id (request_of ''Bearer tokenA'' ''2147483648'' None None))
      = Some 2147483648"
    by (simp add: request_of_def p)
  show ?thesis
    using p row thrown pid
    by (simp add: route_get_todo_def route_put_todo_def route_delete_todo_def
        protected_authenticated[OF auth_a] get_todo_def put_todo_def delete_todo_def)
qed

text \<open>
  C9. Read-one, update and delete by an authenticated principal, on an id for which
  \<open>parseInt\<close> gives NaN: the answer is 400 \<open>Invalid todo ID\<close> whatever the store holds, and
  the store is unchanged.
\<close>

theorem invalid_id_rejected_first:
  assumes auth: "authenticateToken jwt_verify (authorization req) = Inr uid"
    and pid: "parseInt (param_id req) = None"
  shows "route_get_todo jwt_verify d req
           = (\<lparr>status = 400, json = ErrorJson ''Invalid todo ID''\<rparr>, d)
       \<and> route_put_todo jwt_verify now d req
           = (\<lparr>status = 400, json = ErrorJson ''Invalid todo ID''\<rparr>, d)
       \<and> route_delete_todo jwt_verify d req
           = (\<lparr>status = 400, json = ErrorJson ''Invalid todo ID''\<rparr>, d)"
  using pid
  by (simp add: route_get_todo_def route_put_todo_def route_delete_todo_def
      protected_authenticated[OF auth] get_todo_def put_todo_def delete_todo_def)

theorem invalid_id_rejected_first_witness:
  "route_get_todo example_verify example_db (request_of ''Bearer tokenA'' ''abc'' None (Some True))
     = (\<lparr>status = 400, json = ErrorJson ''Invalid todo ID''\<rparr>, example_db)
   \<and> route_put_todo example_verify 400 example_db
       (request_of ''Bearer tokenA'' ''abc'' None (Some True))
     = (\<lparr>status = 400, json = ErrorJson ''Invalid todo ID''\<rparr>, example_db)
   \<and> route_delete_todo example_verify example_db
       (request_of ''Bearer tokenA'' ''abc'' None (Some True))
     = (\<lparr>status = 400, json = ErrorJson ''Invalid todo ID''\<rparr>, example_db)"
proof -
  have nan: "parseInt (param_id (request_of ''Bearer tokenA'' ''abc'' None (Some True))) = None"
    by (simp add: request_of_def parseInt_abc)
  show ?thesis
    by (rule invalid_id_rejected_first[OF auth_a nan])
qed


section \<open>Creating a todo\<close>




section \<open>Updating a todo\<close>

text \<open>
  C6. An update by the owner of the todo, on an id that parses, answers 200 with the updated
  todo, which is what the store then holds under that id. Its id, its owner and its creation
  time are those of the old row. A title that the body leaves out is unchanged, and so is a
  completion flag that the body leaves out; a field that the body carries takes the new value
  (the title trimmed). No other row and no account changes.
\<close>

theorem update_changes_only_supplied_fields:
  assumes auth: "authenticateToken jwt_verify (authorization req) = Inr uid"
    and pid: "parseInt (param_id req) = Some n"
    and found: "todo_findUnique d n = Inr (Some t)"
    and own: "userId t = uid"
  shows "\<exists>t' d'. route_put_todo jwt_verify now d req = (\<lparr>status = 200, json = TodoJson t'\<rparr>, d')
           \<and> todo_findUnique d' n = Inr (Some t')
           \<and> todo_id t' = todo_id t \<and> userId t' = userId t \<and> createdAt t' = createdAt t
           \<and> (body_title req = None \<longrightarrow> title t' = title t)
           \<and> (body_completed req = None \<longrightarrow> completed t' = completed t)
           \<and> (\<forall>s. body_title req = Some s \<longrightarrow> title t' = trim s)
           \<and> (\<forall>b. body_completed req = Some b \<longrightarrow> completed t' = b)
           \<and> (\<forall>m. m \<noteq> n \<longrightarrow> todo_findUnique d' m = todo_findUnique d m)
           \<and> users d' = users d"
proof (intro exI conjI)
  let ?u = "\<lparr>upd_title = map_option trim (body_title req), upd_completed = body_completed req\<rparr>"
  show "route_put_todo jwt_verify now d req
          = (\<lparr>status = 200, json = TodoJson (apply_update now ?u t)\<rparr>, updated_db now d n ?u)"
    by (rule put_todo_by_owner[OF auth pid found own])
  show "todo_findUnique (updated_db now d n ?u) n = Inr (Some (apply_update now ?u t))"
    by (rule findUnique_updated_same[OF found])
  show "\<forall>m. m \<noteq> n \<longrightarrow> todo_findUnique (updated_db now d n ?u) m = todo_findUnique d m"
    by (simp add: findUnique_updated_other)
  show "users (updated_db now d n ?u) = users d"
    by (rule users_updated_db)
qed (simp_all add: apply_update_def)

theorem update_changes_only_supplied_fields_witness:
  "\<exists>t' d'. route_put_todo example_verify 400 example_db
              (request_of ''Bearer tokenA'' ''1'' None (Some True))
              = (\<lparr>status = 200, json = TodoJson t'\<rparr>, d')
           \<and> todo_findUnique d' 1 = Inr (Some t')
           \<and> todo_id t' = 1 \<and> userId t' = 1 \<and> title t' = ''buy milk'' \<and> completed t'
           \<and> todo_findUnique d' 2 = Inr (Some todo_2)"
proof -
  have p1: "parseInt (param_id (request_of ''Bearer tokenA'' ''1'' None (Some True))) = Some 1"
    by (simp add: request_of_def parseInt_1)
  have own: "userId todo_1 = 1"
    by (simp add: todo_1_def)
  have f2: "todo_findUnique example_db 2 = Inr (Some todo_2)"
    by (simp add: todo_findUnique_def todo_row_def in_int4_def example_defs)
  obtain t' d' where r:
    "route_put_todo example_verify 400 example_db
       (request_of ''Bearer tokenA'' ''1'' None (Some True))
       = (\<lparr>status = 200, json = TodoJson t'\<rparr>, d')"
    "todo_findUnique d' 1 = Inr (Some t')"
    "todo_id t' = todo_id todo_1" "userId t' = userId todo_1"
    "body_title (request_of ''Bearer tokenA'' ''1'' None (Some True)) = None
       \<longrightarrow> title t' = title todo_1"
    "\<forall>b. body_completed (request_of ''Bearer tokenA'' ''1'' None (Some True)) = Some b
       \<longrightarrow> completed t' = b"
    "\<forall>m. m \<noteq> 1 \<longrightarrow> todo_findUnique d' m = todo_findUnique example_db m"
    using update_changes_only_supplied_fields[OF auth_a p1 find_1 own, of 400]
    by (elim exE conjE) (rule that)
  have "todo_id t' = 1" "userId t' = 1" "title t' = ''buy milk''"
    using r(3-5) by (simp_all add: request_of_def todo_1_def)
  moreover have "completed t'"
    using r(6)[rule_format, of True] by (simp add: request_of_def)
  moreover have "todo_findUnique d' 2 = Inr (Some todo_2)"
    using r(7)[rule_format, of 2] f2 by simp
  ultimately show ?thesis
    using r(1,2) by (intro exI conjI)
qed

text \<open>
  C10. An update by the owner with a title that is empty or all white space answers 200 and
  stores the empty string as the title, where a create request with the same title is refused
  with 400 \<open>Title is required\<close>.
\<close>

theorem update_accepts_blank_title:
  assumes auth: "authenticateToken jwt_verify (authorization req) = Inr uid"
    and pid: "parseInt (param_id req) = Some n"
    and found: "todo_findUnique d n = Inr (Some t)"
    and own: "userId t = uid"
    and blank: "body_title req = Some s" "\<forall>c\<in>set s. isWhiteSpace c"
  shows "(\<exists>t' d'. route_put_todo jwt_verify now d req = (\<lparr>status = 200, json = TodoJson t'\<rparr>, d')
            \<and> todo_findUnique d' n = Inr (Some t') \<and> title t' = [])
       \<and> route_post_todo jwt_verify now d req
           = (\<lparr>status = 400, json = ErrorJson ''Title is required''\<rparr>, d)"
proof (intro exI conjI)
  let ?u = "\<lparr>upd_title = map_option trim (body_title req), upd_completed = body_completed req\<rparr>"
  show "route_put_todo jwt_verify now d req
          = (\<lparr>status = 200, json = TodoJson (apply_update now ?u t)\<rparr>, updated_db now d n ?u)"
    by (rule put_todo_by_owner[OF auth pid found own])
  show "todo_findUnique (updated_db now d n ?u) n = Inr (Some (apply_update now ?u t))"
    by (rule findUnique_updated_same[OF found])
  show "title (apply_update now ?u t) = []"
    using blank by (simp add: apply_update_def trim_blank)
  show "route_post_todo jwt_verify now d req
           = (\<lparr>status = 400, json = ErrorJson ''Title is required''\<rparr>, d)"
    using blank
    by (simp add: route_post_todo_def protected_authenticated[OF auth] post_todo_def trim_blank)
qed

theorem update_accepts_blank_title_witness:
  "(\<exists>t' d'. route_put_todo example_verify 400 example_db
               (request_of ''Bearer tokenA'' ''1'' (Some ''  '') None)
               = (\<lparr>status = 200, json = TodoJson t'\<rparr>, d')
            \<and> todo_findUnique d' 1 = Inr (Some t') \<and> title t' = [])
   \<and> route_post_todo example_verify 400 example_db
       (request_of ''Bearer tokenA'' ''1'' (Some ''  '') None)
       = (\<lparr>status = 400, json = ErrorJson ''Title is required''\<rparr>, example_db)"
proof -
  have p1: "parseInt (param_id (request_of ''Bearer tokenA'' ''1'' (Some ''  '') None)) = Some 1"
    by (simp add: request_of_def parseInt_1)
  have own: "userId todo_1 = 1"
    by (simp add: todo_1_def)
  have ti: "body_title (request_of ''Bearer tokenA'' ''1'' (Some ''  '') None) = Some ''  ''"
    by (simp add: request_of_def)
  have ws: "\<forall>c\<in>set ''  ''. isWhiteSpace c"
    by (simp add: isWhiteSpace_def)
  show ?thesis
    by (rule update_accepts_blank_title[OF auth_a p1 find_1 own ti ws])
qed

section \<open>Listing todos\<close>

text \<open>
  C7. A list request by an authenticated principal answers 200 with exactly the rows of the
  table whose owner is the principal, each as often as the table holds it, in the order of
  their creation times, newest first. The store is unchanged.
\<close>

theorem list_scoped_newest_first:
  assumes auth: "authenticateToken jwt_verify (authorization req) = Inr uid"
  shows "\<exists>ts. route_get_todos jwt_verify d req = (\<lparr>status = 200, json = TodosJson ts\<rparr>, d)
           \<and> mset ts = filter_mset (\<lambda>t. userId t = uid) (mset (todos d))
           \<and> sorted_wrt (\<lambda>a b. createdAt b \<le> createdAt a) ts"
  by (simp add: route_get_todos_def protected_authenticated[OF auth] get_todos_def
      todo_findMany_def sorted_desc_sort_key)

theorem list_scoped_newest_first_witness:
  "\<exists>ts. route_get_todos example_verify example_db (request_of ''Bearer tokenA'' [] None None)
          = (\<lparr>status = 200, json = TodosJson ts\<rparr>, example_db)
        \<and> mset ts = filter_mset (\<lambda>t. userId t = 1) (mset (todos example_db))
        \<and> sorted_wrt (\<lambda>a b. createdAt b \<le> createdAt a) ts"
  by (rule list_scoped_newest_first[OF auth_a])


section \<open>The middleware\<close>

text \<open>
  As stated, C8 has every header that is not of the form \<open><scheme> <token>\<close> refused with
  401. A header of three fields is not refused: its second field goes to \<open>jwt.verify\<close>, and
  here the request is authenticated as account 1.
\<close>

theorem three_field_header_counterexample:
  "authenticateToken example_verify (Some ''Bearer tokenA extra'') = Inr 1"
  by (simp add: authenticateToken_def extract_token_def js_index_def falsy_def example_verify_def)

text \<open>
  C8, amended. The middleware reads the second of the fields that single spaces separate in
  the header and nothing else. It answers 401 \<open>Access token required\<close> when the header is
  absent, when the header has no space, and when the field after the first space is empty.
  Otherwise that field alone is given to \<open>jwt.verify\<close>, whatever the first field is and
  whatever follows the second.
\<close>

theorem token_is_second_field:
  "authenticateToken jwt_verify None
     = Inl \<lparr>status = 401, json = ErrorJson ''Access token required''\<rparr>
   \<and> (CHR '' '' \<notin> set h \<longrightarrow>
        authenticateToken jwt_verify (Some h)
          = Inl \<lparr>status = 401, json = ErrorJson ''Access token required''\<rparr>)
   \<and> (CHR '' '' \<notin> set a \<longrightarrow>
        authenticateToken jwt_verify (Some (a @ CHR '' '' # r))
          = (let token = takeWhile (\<lambda>c. c \<noteq> CHR '' '') r
             in if token = [] then Inl \<lparr>status = 401, json = ErrorJson ''Access token required''\<rparr>
                else (case jwt_verify token of
                        Inl err \<Rightarrow> Inl \<lparr>status = 403, json = ErrorJson ''Invalid or expired token''\<rparr>
                      | Inr decoded \<Rightarrow> Inr (payload_userId decoded))))"
proof (intro conjI impI)
  show "authenticateToken jwt_verify None
          = Inl \<lparr>status = 401, json = ErrorJson ''Access token required''\<rparr>"
    by (rule authenticateToken_absent)
next
  assume "CHR '' '' \<notin> set h"
  then show "authenticateToken jwt_verify (Some h)
          = Inl \<lparr>status = 401, json = ErrorJson ''Access token required''\<rparr>"
    using extract_token_one_field[of h] by (simp add: authenticateToken_def)
next
  assume "CHR '' '' \<notin> set a"
  then show "authenticateToken jwt_verify (Some (a @ CHR '' '' # r))
          = (let token = takeWhile (\<lambda>c. c \<noteq> CHR '' '') r
             in if token = [] then Inl \<lparr>status = 401, json = ErrorJson ''Access token required''\<rparr>
                else (case jwt_verify token of
                        Inl err \<Rightarrow> Inl \<lparr>status = 403, json = ErrorJson ''Invalid or expired token''\<rparr>
                      | Inr decoded \<Rightarrow> Inr (payload_userId decoded)))"
    by (simp add: authenticateToken_def extract_token_second_field falsy_def Let_def)
qed

theorem token_is_second_field_witness:
  "authenticateToken example_verify (Some ''Bearer'')
     = Inl \<lparr>status = 401, json = ErrorJson ''Access token required''\<rparr>
   \<and> authenticateToken example_verify (Some ''Bearer  tokenB'')
     = Inl \<lparr>status = 401, json = ErrorJson ''Access token required''\<rparr>
   \<and> authenticateToken example_verify (Some ''Basic tokenB and more'') = Inr 2"
proof -
  have one: "CHR '' '' \<notin> set ''Bearer''" and scheme: "CHR '' '' \<notin> set ''Basic''"
    by simp_all
  have "authenticateToken example_verify (Some ''Bearer'')
     = Inl \<lparr>status = 401, json = ErrorJson ''Access token required''\<rparr>"
    using token_is_second_field[of example_verify "''Bearer''", THEN conjunct2, THEN conjunct1]
      one by blast
  moreover have "authenticateToken example_verify (Some ''Bearer  tokenB'')
     = Inl \<lparr>status = 401, json = ErrorJson ''Access token required''\<rparr>"
    using token_is_second_field[of example_verify _ "''Bearer''" "'' tokenB''",
        THEN conjunct2, THEN conjunct2] one
    by simp
  moreover have "authenticateToken example_verify (Some ''Basic tokenB and more'') = Inr 2"
    using token_is_second_field[of example_verify _ "''Basic''" "''tokenB and more''",
        THEN conjunct2, THEN conjunct2] scheme
    by (simp add: example_verify_def)
  ultimately show ?thesis by blast
qed

text \<open>
  What the middleware does with a header \<open>Bearer <token>\<close> whose token, non-empty and
  without spaces, fails verification: it answers 403 \<open>Invalid or expired token\<close>, whatever
  error the verification reports, where an absent header is answered 401.
\<close>

lemma verification_failure_answers_403:
  "authenticateToken jwt_verify None
     = Inl \<lparr>status = 401, json = ErrorJson ''Access token required''\<rparr>
   \<and> (g \<noteq> [] \<and> CHR '' '' \<notin> set g \<and> jwt_verify g = Inl err \<longrightarrow>
        authenticateToken jwt_verify (Some (''Bearer '' @ g))
          = Inl \<lparr>status = 403, json = ErrorJson ''Invalid or expired token''\<rparr>)"
proof (intro conjI impI)
  show "authenticateToken jwt_verify None
          = Inl \<lparr>status = 401, json = ErrorJson ''Access token required''\<rparr>"
    by (rule authenticateToken_absent)
next
  assume g: "g \<noteq> [] \<and> CHR '' '' \<notin> set g \<and> jwt_verify g = Inl err"
  have "extract_token (Some (''Bearer'' @ CHR '' '' # g)) = Some (takeWhile (\<lambda>c. c \<noteq> CHR '' '') g)"
    by (rule extract_token_second_field) simp
  moreover have "takeWhile (\<lambda>c. c \<noteq> CHR '' '') g = g"
    using g by (auto intro: takeWhile_eq_all_conv[THEN iffD2])
  ultimately have "extract_token (Some (''Bearer '' @ g)) = Some g"
    by simp
  then show "authenticateToken jwt_verify (Some (''Bearer '' @ g))
          = Inl \<lparr>status = 403, json = ErrorJson ''Invalid or expired token''\<rparr>"
    using g by (simp add: authenticateToken_def falsy_def)
qed

text \<open>
  C2. A request without Authorization header and a request with the header
  \<open>Bearer garbage\<close> are to be refused with the same code. They are not: the first is answered
  401 and the second 403, although the comment at the head of \<open>authenticateToken\<close> has an
  invalid token answered 401 as well.
\<close>

theorem garbage_token_answers_403:
  "authenticateToken example_verify None
     = Inl \<lparr>status = 401, json = ErrorJson ''Access token required''\<rparr>
   \<and> authenticateToken example_verify (Some ''Bearer garbage'')
     = Inl \<lparr>status = 403, json = ErrorJson ''Invalid or expired token''\<rparr>
   \<and> authenticateToken example_verify None
     \<noteq> authenticateToken example_verify (Some ''Bearer garbage'')"
  by (simp add: authenticateToken_def extract_token_def js_index_def falsy_def example_verify_def)

section \<open>Login and signup\<close>

text \<open>
  Two login requests whose identifier and password are non-empty strings, one for an
  identifier that the store holds with a password that does not verify against its hash, the
  other for an identifier that the store does not hold: both are answered 401
  \<open>Invalid credentials\<close>, the same code and the same message, and the store is unchanged.
\<close>

lemma login_failures_indistinguishable:
  assumes r1: "login_email r1 = Some (JString e1)" "e1 \<noteq> []"
              "login_password r1 = Some (JString p1)" "p1 \<noteq> []"
    and r2: "login_email r2 = Some (JString e2)" "e2 \<noteq> []" "\<not> js_falsy (login_password r2)"
    and wrong: "user_findUnique d e1 = Some u" "\<not> bcrypt_compare p1 (password u)"
    and unknown: "user_findUnique d e2 = None"
  shows "login bcrypt_compare jwt_sign d r1
           = (\<lparr>status = 401, json = ErrorJson ''Invalid credentials''\<rparr>, d)
       \<and> login bcrypt_compare jwt_sign d r2
           = (\<lparr>status = 401, json = ErrorJson ''Invalid credentials''\<rparr>, d)"
  using assms
  by (simp add: login_def js_falsy_def user_findUnique_where_def bcrypt_compare_js_def)

text \<open>
  C3. A login with an identifier that exists and a wrong password, and a login with an
  identifier that does not exist, are to get the identical answer. With the password \<open>1\<close>, a
  JSON number, they do not. For the stored identifier the handler reaches \<open>bcrypt.compare\<close>,
  which throws on a password that is no string, and the \<open>catch\<close> answers 500; for the unknown
  identifier the handler has answered 401 before. The answer tells which identifiers exist,
  which the handler's comment on the generic message sets out to prevent.
\<close>

theorem number_password_tells_identifiers_apart:
  "login example_compare example_sign example_db
      \<lparr>login_email = Some (JString ''a@example.com''), login_password = Some (JNumber 1)\<rparr>
     = (\<lparr>status = 500, json = ErrorJson ''Something went wrong during login''\<rparr>, example_db)
   \<and> login example_compare example_sign example_db
      \<lparr>login_email = Some (JString ''nobody@example.com''), login_password = Some (JNumber 1)\<rparr>
     = (\<lparr>status = 401, json = ErrorJson ''Invalid credentials''\<rparr>, example_db)"
proof -
  have known: "user_findUnique example_db ''a@example.com'' = Some user_a"
    by (simp add: user_findUnique_def example_defs)
  have unknown: "user_findUnique example_db ''nobody@example.com'' = None"
    by (simp add: user_findUnique_def example_defs)
  show ?thesis
    using known unknown
    by (simp add: login_def js_falsy_def user_findUnique_where_def bcrypt_compare_js_def)
qed

text \<open>
  C4. A signup request whose identifier is already in the store is answered 400 and leaves
  the store as it was: the account found under the identifier is the same row, with the same
  hash, and the table has no new row. When the request passes the checks that come first (a
  non-empty identifier and a password of six characters or more) the message is
  \<open>User already exists\<close>.
\<close>

theorem signup_existing_identifier:
  assumes "body_email req = Some e" and "user_findUnique d e = Some u"
  shows "snd (signup bcrypt_hash jwt_sign now d req) = d
       \<and> user_findUnique (snd (signup bcrypt_hash jwt_sign now d req)) e = Some u
       \<and> users (snd (signup bcrypt_hash jwt_sign now d req)) = users d
       \<and> status (fst (signup bcrypt_hash jwt_sign now d req)) = 400
       \<and> (e \<noteq> [] \<and> (\<exists>p. body_password req = Some p \<and> 6 \<le> length p) \<longrightarrow>
            fst (signup bcrypt_hash jwt_sign now d req)
              = \<lparr>status = 400, json = ErrorJson ''User already exists''\<rparr>)"
proof -
  have unchanged: "snd (signup bcrypt_hash jwt_sign now d req) = d"
    using assms by (simp add: signup_def)
  have code: "status (fst (signup bcrypt_hash jwt_sign now d req)) = 400"
    using assms by (simp add: signup_def)
  have msg: "fst (signup bcrypt_hash jwt_sign now d req)
              = \<lparr>status = 400, json = ErrorJson ''User already exists''\<rparr>"
    if "e \<noteq> [] \<and> (\<exists>p. body_password req = Some p \<and> 6 \<le> length p)"
    using assms that by (auto simp: signup_def falsy_def)
  show ?thesis
    using unchanged code msg assms(2) by simp
qed

theorem signup_existing_identifier_witness:
  "signup example_hash example_sign 400 example_db
      \<lparr>body_email = Some ''a@example.com'', body_password = Some ''another1''\<rparr>
     = (\<lparr>status = 400, json = ErrorJson ''User already exists''\<rparr>, example_db)
   \<and> user_findUnique example_db ''a@example.com'' = Some user_a"
proof -
  let ?req = "\<lparr>body_email = Some ''a@example.com'', body_password = Some ''another1''\<rparr>"
  have e: "body_email ?req = Some ''a@example.com''"
    by simp
  have known: "user_findUnique example_db ''a@example.com'' = Some user_a"
    by (simp add: user_findUnique_def example_defs)
  have valid: "''a@example.com'' \<noteq> [] \<and> (\<exists>p. body_password ?req = Some p \<and> 6 \<le> length p)"
    by simp
  note s = signup_existing_identifier[OF e known, of example_hash example_sign 400]
  have "snd (signup example_hash example_sign 400 example_db ?req) = example_db"
    using s by blast
  moreover have "fst (signup example_hash example_sign 400 example_db ?req)
      = \<lparr>status = 400, json = ErrorJson ''User already exists''\<rparr>"
    using s valid by blast
  ultimately show ?thesis
    using known by (simp add: prod_eq_iff)
qed

end
